theory Spec2Isabelle
  imports Main "HOL-Library.AList"
begin

section \<open>Data model\<close>

text \<open>
  The program (\<^verbatim>\<open>src/index.js\<close>) reads and writes \<^verbatim>\<open>package.json\<close> files and
  runs \<^verbatim>\<open>npm\<close> as a subprocess. A JSON value is a \<open>json\<close>; a JSON object is the list
  of its own properties, in the order of the file or of their creation (\<open>objectEntries\<close>
  below gives the order in which JavaScript enumerates them). Numbers are modelled on the integers.
\<close>

datatype json =
    JNull
  | JBool bool
  | JNum int
  | JStr string
  | JArr "json list"
  | JObj "(string \<times> json) list"

type_synonym obj = "(string \<times> json) list"

text \<open>
  A parsed \<^verbatim>\<open>package.json\<close>, at the types of the manifest's data model: \<open>name\<close> and
  \<open>version\<close> are strings, \<open>dependencies\<close> and \<open>localDependencies\<close> are objects, and
  each of the four may be absent (\<open>None\<close> is JavaScript's \<^verbatim>\<open>undefined\<close>). The
  values stored in the two objects are arbitrary JSON values. \<open>rest\<close> holds every other
  top-level key.
\<close>

record manifest =
  name :: "string option"
  version :: "string option"
  dependencies :: "obj option"
  localDependencies :: "obj option"
  rest :: obj

text \<open>
  The value \<^verbatim>\<open>{ name: depName, version: depVersion, path: localPath }\<close> returned by
  \<^verbatim>\<open>linkLocalDependency\<close>; its fields are the three keys, prefixed with \<open>dep_\<close>.
\<close>

record depInfo =
  dep_name :: "string option"
  dep_version :: "string option"
  dep_path :: string

text \<open>
  The program throws \<^verbatim>\<open>Error\<close> objects told apart by their message only:
  \<^item> \<open>NotFoundError\<close>: \<^verbatim>\<open>No package.json found at ...\<close> (\<^verbatim>\<open>readPackageJson\<close>);
  \<^item> \<open>ParseError\<close>: what \<^verbatim>\<open>readFile\<close> or \<^verbatim>\<open>JSON.parse\<close> throws;
  \<^item> \<open>PathNotFoundError\<close>: \<^verbatim>\<open>Path does not exist: ...\<close>;
  \<^item> \<open>MissingNameError\<close>: \<^verbatim>\<open>No package name found in ...\<close>;
  \<^item> \<open>LinkerError\<close>: the rejection of \<^verbatim>\<open>execCommand\<close> when the subprocess fails;
  \<^item> \<open>TypeError\<close>: assigning a property of \<^verbatim>\<open>undefined\<close>;
  \<^item> \<open>WriteError\<close>: the rejection of \<^verbatim>\<open>writeFile\<close>.
\<close>

datatype error =
    NotFoundError
  | ParseError
  | PathNotFoundError
  | MissingNameError
  | LinkerError
  | TypeError
  | WriteError

text \<open>
  What a path of the file system holds: \<open>Json m\<close> is a file whose text
  \<^verbatim>\<open>JSON.parse\<close> turns into \<open>m\<close> (what \<^verbatim>\<open>JSON.stringify(m, null, 2) + '\n'\<close> writes
  is such a file); \<open>Opaque\<close> is anything else that exists (a directory, a file that is
  not JSON). \<^verbatim>\<open>access(p, F_OK)\<close> succeeds exactly when the path holds something.
\<close>

datatype entry = Opaque | Json manifest

text \<open>
  The observable history of a run: subprocess invocations (command, argument vector,
  working directory), writes of a manifest, and the two console lines of the bulk
  installer (\<^verbatim>\<open>Processing: ...\<close> and \<^verbatim>\<open>Failed: ...\<close>). An \<^verbatim>\<open>undefined\<close> element of
  an argument vector is \<open>None\<close>.
\<close>

datatype event =
    Exec string "string option list" string
  | Write string manifest
  | Processing string
  | Failed error

record world =
  fs :: "string \<Rightarrow> entry option"
  trace :: "event list"

text \<open>
  What \<^verbatim>\<open>writeFile\<close> answers: the write went through, or it was rejected and left
  the given files behind.
\<close>

datatype written = Written | Rejected "string \<Rightarrow> entry option"

text \<open>
  What the program takes from its platform: the working directory \<^verbatim>\<open>process.cwd()\<close>,
  \<^verbatim>\<open>resolve\<close> and \<^verbatim>\<open>join\<close> of \<^verbatim>\<open>node:path\<close>, the subprocess behind
  \<^verbatim>\<open>execFile\<close>, which from the command, its arguments, its working directory and the
  world so far gives whether it exited with status zero and the files it leaves, and
  \<^verbatim>\<open>writeFile\<close>, which from the path, the manifest to write and the world so far
  says whether the write goes through.
\<close>

record env =
  cwd :: string
  resolve :: "string \<Rightarrow> string \<Rightarrow> string"
  join :: "string \<Rightarrow> string \<Rightarrow> string"
  execFile :: "string \<Rightarrow> string option list \<Rightarrow> string \<Rightarrow> world \<Rightarrow> bool \<times> (string \<Rightarrow> entry option)"
  writeFile :: "string \<Rightarrow> manifest \<Rightarrow> world \<Rightarrow> written"

section \<open>JavaScript values\<close>

text \<open>Truthiness of a value read from a JSON object (\<^verbatim>\<open>undefined\<close> is \<open>None\<close>).\<close>

fun truthy :: "json option \<Rightarrow> bool" where
  "truthy None = False"
| "truthy (Some JNull) = False"
| "truthy (Some (JBool b)) = b"
| "truthy (Some (JNum n)) = (n \<noteq> 0)"
| "truthy (Some (JStr s)) = (s \<noteq> [])"
| "truthy (Some (JArr xs)) = True"
| "truthy (Some (JObj kvs)) = True"

text \<open>\<^verbatim>\<open>!s\<close> for a string that may be \<^verbatim>\<open>undefined\<close>.\<close>

fun falsy :: "string option \<Rightarrow> bool" where
  "falsy None = True"
| "falsy (Some s) = (s = [])"

text \<open>
  The string a template literal \<^verbatim>\<open>${s}\<close> or a property key \<^verbatim>\<open>o[s]\<close> makes of a
  string that may be \<^verbatim>\<open>undefined\<close>.
\<close>

fun toString :: "string option \<Rightarrow> string" where
  "toString None = ''undefined''"
| "toString (Some s) = s"

text \<open>\<^verbatim>\<open>`^${v}`\<close>\<close>

definition caret :: "string option \<Rightarrow> json" where
  "caret v = JStr (''^'' @ toString v)"

text \<open>\<^verbatim>\<open>o[k]\<close> for an object that may be \<^verbatim>\<open>undefined\<close>, where it yields no value.\<close>

fun lookup :: "obj option \<Rightarrow> string \<Rightarrow> json option" where
  "lookup None k = None"
| "lookup (Some al) k = map_of al k"

section \<open>JavaScript objects\<close>

text \<open>
  An array index is the canonical decimal numeral of a number below \<open>2^32 - 1\<close>.
  JavaScript enumerates the own properties of an object (\<^verbatim>\<open>Object.entries\<close>,
  \<^verbatim>\<open>JSON.stringify\<close>) with the array indices first, in ascending order, and the other
  keys after them in the order of their creation.
\<close>

definition isDigit :: "char \<Rightarrow> bool" where
  "isDigit c = (48 \<le> (of_char c :: nat) \<and> (of_char c :: nat) \<le> 57)"

definition decimal :: "string \<Rightarrow> nat" where
  "decimal s = foldl (\<lambda>n c. 10 * n + ((of_char c :: nat) - 48)) 0 s"

definition isArrayIndex :: "string \<Rightarrow> bool" where
  "isArrayIndex s =
     (s \<noteq> [] \<and> list_all isDigit s \<and> (s = ''0'' \<or> hd s \<noteq> CHR ''0'') \<and> decimal s < 4294967295)"

text \<open>\<^verbatim>\<open>Object.entries(o)\<close>\<close>

definition objectEntries :: "obj \<Rightarrow> obj" where
  "objectEntries al =
     sort_key (\<lambda>kv. decimal (fst kv)) (filter (\<lambda>kv. isArrayIndex (fst kv)) al)
     @ filter (\<lambda>kv. \<not> isArrayIndex (fst kv)) al"

text \<open>
  Where a new array index goes in an object listed in the order of enumeration: after
  the array indices below it.
\<close>

fun insertIndex :: "string \<Rightarrow> json \<Rightarrow> obj \<Rightarrow> obj" where
  "insertIndex k v [] = [(k, v)]"
| "insertIndex k v (kv # al) =
     (if isArrayIndex (fst kv) \<and> decimal (fst kv) < decimal k then kv # insertIndex k v al
      else (k, v) # kv # al)"

text \<open>
  The assignment \<^verbatim>\<open>o[k] = v\<close> on an object \<open>o\<close> made by \<^verbatim>\<open>JSON.parse\<close> or \<^verbatim>\<open>{}\<close>. An own
  property keeps its place and takes the value. Without an own property of that name,
  the key \<^verbatim>\<open>__proto__\<close> reaches the setter of \<^verbatim>\<open>Object.prototype\<close>, which ignores a
  string: nothing is stored. Any other new key is created, an array index at its place
  among the array indices and another key at the end.
\<close>

definition setProperty :: "obj \<Rightarrow> string \<Rightarrow> json \<Rightarrow> obj" where
  "setProperty al k v =
     (if map_of al k \<noteq> None then AList.update k v al
      else if k = ''__proto__'' then al
      else if isArrayIndex k then insertIndex k v al
      else al @ [(k, v)])"

section \<open>Manifest I/O and the subprocess\<close>

definition execCommand ::
  "env \<Rightarrow> string \<Rightarrow> string option list \<Rightarrow> string \<Rightarrow> world \<Rightarrow> (error + unit) \<times> world" where
  "execCommand E command args dir w =
     (case execFile E command args dir w of
        (ok, files) \<Rightarrow>
          (if ok then Inr () else Inl LinkerError,
           w\<lparr>fs := files, trace := trace w @ [Exec command args dir]\<rparr>))"

definition readPackageJson :: "env \<Rightarrow> string \<Rightarrow> world \<Rightarrow> error + manifest" where
  "readPackageJson E packagePath w =
     (let packageJsonPath = join E packagePath ''package.json'' in
      case fs w packageJsonPath of
        None \<Rightarrow> Inl NotFoundError
      | Some Opaque \<Rightarrow> Inl ParseError
      | Some (Json m) \<Rightarrow> Inr m)"

text \<open>
  A write that goes through leaves the manifest in the file and a \<open>Write\<close> in the trace;
  a rejected one throws.
\<close>

definition writePackageJson ::
  "env \<Rightarrow> string \<Rightarrow> manifest \<Rightarrow> world \<Rightarrow> (error + unit) \<times> world" where
  "writePackageJson E packagePath packageData w =
     (let packageJsonPath = join E packagePath ''package.json'' in
      case writeFile E packageJsonPath packageData w of
        Written \<Rightarrow>
          (Inr (),
           w\<lparr>fs := (fs w)(packageJsonPath \<mapsto> Json packageData),
             trace := trace w @ [Write packageJsonPath packageData]\<rparr>)
      | Rejected files \<Rightarrow> (Inl WriteError, w\<lparr>fs := files\<rparr>))"

section \<open>Linking one dependency\<close>

definition linkLocalDependency ::
  "env \<Rightarrow> string \<Rightarrow> string \<Rightarrow> world \<Rightarrow> (error + depInfo) \<times> world" where
  "linkLocalDependency E localPath currentPath w =
     (let absolutePath = resolve E currentPath localPath in
      if fs w absolutePath = None then (Inl PathNotFoundError, w)
      else
        case readPackageJson E absolutePath w of
          Inl e \<Rightarrow> (Inl e, w)
        | Inr depPackageJson \<Rightarrow>
            if falsy (name depPackageJson) then (Inl MissingNameError, w)
            else
              (case execCommand E ''npm'' [Some ''link''] absolutePath w of
                 (Inl e, w1) \<Rightarrow> (Inl e, w1)
               | (Inr _, w1) \<Rightarrow>
                   (case execCommand E ''npm'' [Some ''link'', name depPackageJson] currentPath w1 of
                      (Inl e, w2) \<Rightarrow> (Inl e, w2)
                    | (Inr _, w2) \<Rightarrow>
                        (Inr \<lparr>dep_name = name depPackageJson,
                              dep_version = version depPackageJson,
                              dep_path = localPath\<rparr>, w2))))"

text \<open>
  \<^verbatim>\<open>packageJson.dependencies[k] = v\<close> and \<^verbatim>\<open>packageJson.localDependencies[k] = v\<close>.
\<close>

definition setDependency :: "manifest \<Rightarrow> string \<Rightarrow> json \<Rightarrow> error + manifest" where
  "setDependency packageJson k v =
     (case dependencies packageJson of
        None \<Rightarrow> Inl TypeError
      | Some al \<Rightarrow> Inr (packageJson\<lparr>dependencies := Some (setProperty al k v)\<rparr>))"

definition setLocalDependency :: "manifest \<Rightarrow> string \<Rightarrow> json \<Rightarrow> error + manifest" where
  "setLocalDependency packageJson k v =
     (case localDependencies packageJson of
        None \<Rightarrow> Inl TypeError
      | Some al \<Rightarrow> Inr (packageJson\<lparr>localDependencies := Some (setProperty al k v)\<rparr>))"

text \<open>\<^verbatim>\<open>if (!packageJson.dependencies) packageJson.dependencies = {}\<close>, and its twin.\<close>

definition initDependencies :: "manifest \<Rightarrow> manifest" where
  "initDependencies packageJson =
     (if dependencies packageJson = None then packageJson\<lparr>dependencies := Some []\<rparr>
      else packageJson)"

definition initLocalDependencies :: "manifest \<Rightarrow> manifest" where
  "initLocalDependencies packageJson =
     (if localDependencies packageJson = None then packageJson\<lparr>localDependencies := Some []\<rparr>
      else packageJson)"

definition updatePackageJson :: "env \<Rightarrow> string \<Rightarrow> depInfo \<Rightarrow> world \<Rightarrow> (error + unit) \<times> world" where
  "updatePackageJson E packagePath d w =
     (case readPackageJson E packagePath w of
        Inl e \<Rightarrow> (Inl e, w)
      | Inr packageJson \<Rightarrow>
          (case setDependency (initLocalDependencies (initDependencies packageJson))
                  (toString (dep_name d)) (caret (dep_version d)) of
             Inl e \<Rightarrow> (Inl e, w)
           | Inr p1 \<Rightarrow>
               (case setLocalDependency p1 (dep_path d) (caret (dep_version d)) of
                  Inl e \<Rightarrow> (Inl e, w)
                | Inr p2 \<Rightarrow> writePackageJson E packagePath p2 w)))"

text \<open>
  \<^verbatim>\<open>installSingle\<close>: \<open>Inl e\<close> is \<^verbatim>\<open>process.exit(1)\<close> after the error \<open>e\<close> was printed.
\<close>

definition installSingle :: "env \<Rightarrow> string \<Rightarrow> world \<Rightarrow> (error + unit) \<times> world" where
  "installSingle E localPath w =
     (let currentPath = cwd E in
      case linkLocalDependency E localPath currentPath w of
        (Inl e, w1) \<Rightarrow> (Inl e, w1)
      | (Inr d, w1) \<Rightarrow> updatePackageJson E currentPath d w1)"

section \<open>Bulk install\<close>

text \<open>
  The body of the \<^verbatim>\<open>for\<close> loop of \<^verbatim>\<open>installAll\<close> over
  \<^verbatim>\<open>Object.entries(packageJson.localDependencies)\<close>; the loop state is the manifest in
  memory, \<^verbatim>\<open>successCount\<close>, \<^verbatim>\<open>failureCount\<close> and the world. The \<^verbatim>\<open>try\<close> of the body
  catches every error of the entry.
\<close>

definition installEntry ::
  "env \<Rightarrow> string \<Rightarrow> string \<Rightarrow> manifest \<times> nat \<times> nat \<times> world \<Rightarrow> manifest \<times> nat \<times> nat \<times> world" where
  "installEntry E currentPath localPath st =
     (case st of (packageJson, successCount, failureCount, w) \<Rightarrow>
        (case linkLocalDependency E localPath currentPath
                (w\<lparr>trace := trace w @ [Processing localPath]\<rparr>) of
           (Inl e, w1) \<Rightarrow>
             (packageJson, successCount, failureCount + 1, w1\<lparr>trace := trace w1 @ [Failed e]\<rparr>)
         | (Inr d, w1) \<Rightarrow>
             (case setDependency (initDependencies packageJson)
                     (toString (dep_name d)) (caret (dep_version d)) of
                Inl e \<Rightarrow>
                  (initDependencies packageJson, successCount, failureCount + 1,
                   w1\<lparr>trace := trace w1 @ [Failed e]\<rparr>)
              | Inr p1 \<Rightarrow> (p1, successCount + 1, failureCount, w1))))"

fun installLoop ::
  "env \<Rightarrow> string \<Rightarrow> obj \<Rightarrow> manifest \<times> nat \<times> nat \<times> world \<Rightarrow> manifest \<times> nat \<times> nat \<times> world" where
  "installLoop E currentPath [] st = st"
| "installLoop E currentPath ((localPath, ver) # entries) st =
     installLoop E currentPath entries (installEntry E currentPath localPath st)"

datatype report = NoLocalDependencies | Summary nat nat

text \<open>
  \<^verbatim>\<open>installAll\<close>: \<open>Inl e\<close> is \<^verbatim>\<open>process.exit(1)\<close> from the outer \<^verbatim>\<open>catch\<close>, which a
  failed read and a rejected write reach; \<open>Inr NoLocalDependencies\<close> is the early return;
  \<open>Inr (Summary s f)\<close> is the summary printed from \<^verbatim>\<open>successCount\<close> and
  \<^verbatim>\<open>failureCount\<close>.
\<close>

definition installAll :: "env \<Rightarrow> world \<Rightarrow> (error + report) \<times> world" where
  "installAll E w =
     (let currentPath = cwd E in
      case readPackageJson E currentPath w of
        Inl e \<Rightarrow> (Inl e, w)
      | Inr packageJson \<Rightarrow>
          (case localDependencies packageJson of
             None \<Rightarrow> (Inr NoLocalDependencies, w)
           | Some deps \<Rightarrow>
               if length deps = 0 then (Inr NoLocalDependencies, w)
               else
                 (case installLoop E currentPath (objectEntries deps) (packageJson, 0, 0, w) of
                    (p1, successCount, failureCount, w1) \<Rightarrow>
                      if successCount > 0 then
                        (case writePackageJson E currentPath p1 w1 of
                           (Inl e, w2) \<Rightarrow> (Inl e, w2)
                         | (Inr _, w2) \<Rightarrow> (Inr (Summary successCount failureCount), w2))
                      else (Inr (Summary successCount failureCount), w1))))"

text \<open>
  What linking each entry gives, in the order of the loop, each entry linked in the
  state the entries before it leave.
\<close>

fun linkResults ::
  "env \<Rightarrow> string \<Rightarrow> obj \<Rightarrow> manifest \<times> nat \<times> nat \<times> world \<Rightarrow> (error + depInfo) list" where
  "linkResults E currentPath [] st = []"
| "linkResults E currentPath ((localPath, ver) # entries) st =
     fst (linkLocalDependency E localPath currentPath
            ((snd (snd (snd st)))\<lparr>trace := trace (snd (snd (snd st))) @ [Processing localPath]\<rparr>))
     # linkResults E currentPath entries (installEntry E currentPath localPath st)"

text \<open>The number of entries that fail to link.\<close>

definition linkFailures ::
  "env \<Rightarrow> string \<Rightarrow> obj \<Rightarrow> manifest \<times> nat \<times> nat \<times> world \<Rightarrow> nat" where
  "linkFailures E currentPath entries st = length (filter isl (linkResults E currentPath entries st))"

section \<open>Unlink\<close>

text \<open>
  The two guarded \<^verbatim>\<open>delete\<close> statements of \<^verbatim>\<open>unlinkDependency\<close>:
  \<^verbatim>\<open>if (o && o[k]) delete o[k]\<close>.
\<close>

definition deleteIfTruthy :: "obj option \<Rightarrow> string \<Rightarrow> obj option" where
  "deleteIfTruthy ob k =
     (case ob of
        None \<Rightarrow> None
      | Some al \<Rightarrow> if truthy (map_of al k) then Some (AList.delete k al) else Some al)"

definition removeEntries :: "manifest \<Rightarrow> string option \<Rightarrow> string \<Rightarrow> manifest" where
  "removeEntries packageJson depName localPath =
     (let p1 = packageJson\<lparr>dependencies :=
                 deleteIfTruthy (dependencies packageJson) (toString depName)\<rparr>
      in p1\<lparr>localDependencies := deleteIfTruthy (localDependencies p1) localPath\<rparr>)"

definition unlinkDependency :: "env \<Rightarrow> string \<Rightarrow> world \<Rightarrow> (error + unit) \<times> world" where
  "unlinkDependency E localPath w =
     (let currentPath = cwd E;
          absolutePath = resolve E currentPath localPath in
      case readPackageJson E absolutePath w of
        Inl e \<Rightarrow> (Inl e, w)
      | Inr depPackageJson \<Rightarrow>
          (case execCommand E ''npm'' [Some ''unlink'', name depPackageJson] currentPath w of
             (Inl e, w1) \<Rightarrow> (Inl e, w1)
           | (Inr _, w1) \<Rightarrow>
               (case readPackageJson E currentPath w1 of
                  Inl e \<Rightarrow> (Inl e, w1)
                | Inr packageJson \<Rightarrow>
                    writePackageJson E currentPath
                      (removeEntries packageJson (name depPackageJson) localPath) w1)))"

section \<open>Reading a trace\<close>

definition processed :: "event list \<Rightarrow> string list" where
  "processed es = concat (map (\<lambda>e. case e of Processing p \<Rightarrow> [p] | _ \<Rightarrow> []) es)"

definition failures :: "event list \<Rightarrow> error list" where
  "failures es = concat (map (\<lambda>e. case e of Failed x \<Rightarrow> [x] | _ \<Rightarrow> []) es)"

definition writes :: "event list \<Rightarrow> (string \<times> manifest) list" where
  "writes es = concat (map (\<lambda>e. case e of Write p m \<Rightarrow> [(p, m)] | _ \<Rightarrow> []) es)"

section \<open>A POSIX platform and a sample project\<close>

text \<open>
  \<^verbatim>\<open>resolve\<close> and \<^verbatim>\<open>join\<close> as \<^verbatim>\<open>node:path\<close> computes them on POSIX for an absolute
  first argument: the segments between slashes, without the empty ones and \<^verbatim>\<open>.\<close>,
  each \<^verbatim>\<open>..\<close> dropping the segment before it.
\<close>

fun splitSlash :: "string \<Rightarrow> string list" where
  "splitSlash [] = [[]]"
| "splitSlash (c # cs) =
     (if c = CHR ''/'' then [] # splitSlash cs
      else (case splitSlash cs of [] \<Rightarrow> [[c]] | s # ss \<Rightarrow> (c # s) # ss))"

fun normalizeSegments :: "string list \<Rightarrow> string list \<Rightarrow> string list" where
  "normalizeSegments acc [] = rev acc"
| "normalizeSegments acc (s # ss) =
     (if s = [] \<or> s = ''.'' then normalizeSegments acc ss
      else if s = ''..'' then normalizeSegments (tl acc) ss
      else normalizeSegments (s # acc) ss)"

definition posixNormalize :: "string \<Rightarrow> string" where
  "posixNormalize p =
     (case normalizeSegments [] (splitSlash p) of
        [] \<Rightarrow> ''/''
      | s # ss \<Rightarrow> concat (map (\<lambda>x. CHR ''/'' # x) (s # ss)))"

definition posixResolve :: "string \<Rightarrow> string \<Rightarrow> string" where
  "posixResolve from to =
     (if to \<noteq> [] \<and> hd to = CHR ''/'' then posixNormalize to
      else posixNormalize (from @ ''/'' @ to))"

definition posixJoin :: "string \<Rightarrow> string \<Rightarrow> string" where
  "posixJoin a b = posixNormalize (a @ ''/'' @ b)"

text \<open>
  The platform in \<^verbatim>\<open>/home/app\<close>, with a linker that always succeeds and changes no
  file, and writes that go through.
\<close>

definition posix :: env where
  "posix = \<lparr>cwd = ''/home/app'', resolve = posixResolve, join = posixJoin,
            execFile = (\<lambda>command args dir w. (True, fs w)),
            writeFile = (\<lambda>file data w. Written)\<rparr>"

text \<open>The same platform with a linker whose register step (\<^verbatim>\<open>npm link\<close>) fails.\<close>

definition posixNoRegister :: env where
  "posixNoRegister = posix\<lparr>execFile := (\<lambda>command args dir w. (args \<noteq> [Some ''link''], fs w))\<rparr>"


text \<open>
  The consumer \<^verbatim>\<open>{"name":"app","version":"1.0.0"}\<close> and the dependency
  \<^verbatim>\<open>{"name":"lib","version":"2.3.0"}\<close>; \<open>project a d\<close> is a disk with the consumer
  manifest \<open>a\<close> in \<^verbatim>\<open>/home/app\<close> and the dependency manifest \<open>d\<close> in \<^verbatim>\<open>/home/lib\<close>.
\<close>

definition app :: manifest where
  "app = \<lparr>name = Some ''app'', version = Some ''1.0.0'', dependencies = None,
          localDependencies = None, rest = []\<rparr>"

definition lib :: manifest where
  "lib = \<lparr>name = Some ''lib'', version = Some ''2.3.0'', dependencies = None,
          localDependencies = None, rest = []\<rparr>"

definition project :: "manifest \<Rightarrow> manifest \<Rightarrow> world" where
  "project a d =
     \<lparr>fs = [''/home/app'' \<mapsto> Opaque, ''/home/app/package.json'' \<mapsto> Json a,
             ''/home/lib'' \<mapsto> Opaque, ''/home/lib/package.json'' \<mapsto> Json d],
      trace = []\<rparr>"

text \<open>Variants of the consumer used in the examples below.\<close>

definition appLicensed :: manifest where
  "appLicensed = app\<lparr>rest := [(''license'', JStr ''MIT'')]\<rparr>"


definition appLinked :: manifest where
  "appLinked = app\<lparr>dependencies := Some [(''lib'', JStr ''^2.3.0'')],
                    localDependencies := Some [(''../lib'', JStr ''^2.3.0'')]\<rparr>"

definition appAlias :: manifest where
  "appAlias = app\<lparr>dependencies := Some [(''lib'', JStr ''^2.3.0'')],
                   localDependencies := Some [(''./../lib'', JStr ''^2.3.0'')]\<rparr>"

definition appAnyVersion :: manifest where
  "appAnyVersion = app\<lparr>dependencies := Some [(''lib'', JStr [])],
                        localDependencies := Some [(''./../lib'', JStr ''^2.3.0'')]\<rparr>"

text \<open>
  A disk whose dependency lives in the directory \<^verbatim>\<open>/home/app/__proto__\<close>, and a
  dependency whose name is \<^verbatim>\<open>__proto__\<close>.
\<close>

definition protoProject :: "manifest \<Rightarrow> manifest \<Rightarrow> world" where
  "protoProject a d =
     \<lparr>fs = [''/home/app'' \<mapsto> Opaque, ''/home/app/package.json'' \<mapsto> Json a,
             ''/home/app/__proto__'' \<mapsto> Opaque,
             ''/home/app/__proto__/package.json'' \<mapsto> Json d],
      trace = []\<rparr>"

definition libProto :: manifest where
  "libProto = lib\<lparr>name := Some ''__proto__''\<rparr>"

definition appOne :: manifest where
  "appOne = app\<lparr>localDependencies := Some [(''../lib'', JStr ''^1.0.0'')]\<rparr>"

section \<open>Facts about the operations\<close>

lemma processed_simps [simp]:
  "processed [] = []"
  "processed (Processing p # es) = p # processed es"
  "processed (Exec c a d # es) = processed es"
  "processed (Write q m # es) = processed es"
  "processed (Failed x # es) = processed es"
  "processed (es @ es') = processed es @ processed es'"
  by (simp_all add: processed_def)

lemma failures_simps [simp]:
  "failures [] = []"
  "failures (Failed x # es) = x # failures es"
  "failures (Exec c a d # es) = failures es"
  "failures (Write q m # es) = failures es"
  "failures (Processing p # es) = failures es"
  "failures (es @ es') = failures es @ failures es'"
  by (simp_all add: failures_def)

lemma writes_simps [simp]:
  "writes [] = []"
  "writes (Write q m # es) = (q, m) # writes es"
  "writes (Exec c a d # es) = writes es"
  "writes (Failed x # es) = writes es"
  "writes (Processing p # es) = writes es"
  "writes (es @ es') = writes es @ writes es'"
  by (simp_all add: writes_def)

lemma map_of_insertIndex: "map_of (insertIndex k v al) = (map_of al)(k \<mapsto> v)"
proof (induction al)
  case Nil
  then show ?case by simp
next
  case (Cons kv al)
  show ?case
  proof (cases "isArrayIndex (fst kv) \<and> decimal (fst kv) < decimal k")
    case True
    then have "fst kv \<noteq> k" by auto
    with True Cons show ?thesis by (cases kv) (auto simp: fun_eq_iff)
  next
    case False
    then show ?thesis by (cases kv) auto
  qed
qed

lemma map_of_setProperty:
  "map_of (setProperty al k v) k' =
     (if k' = k \<and> (k \<noteq> ''__proto__'' \<or> map_of al k \<noteq> None) then Some v else map_of al k')"
  by (auto simp: setProperty_def AList.update_conv' map_of_insertIndex map_add_def
      split: option.splits)

lemma setProperty_Nil:
  "setProperty [] k v = (if k = ''__proto__'' then [] else [(k, v)])"
  by (simp add: setProperty_def)




lemma linkLocalDependency_Inr:
  assumes "linkLocalDependency E p c w = (Inr d, w1)"
  shows "\<exists>D. fs w (join E (resolve E c p) ''package.json'') = Some (Json D)
           \<and> \<not> falsy (name D)
           \<and> d = \<lparr>dep_name = name D, dep_version = version D, dep_path = p\<rparr>
           \<and> trace w1 = trace w @ [Exec ''npm'' [Some ''link''] (resolve E c p),
                                    Exec ''npm'' [Some ''link'', name D] c]"
  using assms
  by (auto simp: linkLocalDependency_def readPackageJson_def Let_def execCommand_def
      split: if_splits option.splits entry.splits sum.splits prod.splits)

lemma writePackageJson_Inr:
  assumes "fst (writePackageJson E c m w) = Inr ()"
  shows "snd (writePackageJson E c m w) =
           w\<lparr>fs := (fs w)(join E c ''package.json'' \<mapsto> Json m),
             trace := trace w @ [Write (join E c ''package.json'') m]\<rparr>"
  using assms by (simp add: writePackageJson_def Let_def split: written.splits)



lemma updatePackageJson_Inr:
  assumes "fst (updatePackageJson E c d w) = Inr ()"
  shows "\<exists>M. fs w (join E c ''package.json'') = Some (Json M)
          \<and> fs (snd (updatePackageJson E c d w)) (join E c ''package.json'') =
              Some (Json
                (M\<lparr>dependencies :=
                     Some (setProperty (case dependencies M of None \<Rightarrow> [] | Some al \<Rightarrow> al)
                            (toString (dep_name d)) (caret (dep_version d))),
                   localDependencies :=
                     Some (setProperty (case localDependencies M of None \<Rightarrow> [] | Some al \<Rightarrow> al)
                            (dep_path d) (caret (dep_version d)))\<rparr>))"
proof -
  from assms obtain M where M: "readPackageJson E c w = Inr M"
    by (cases "readPackageJson E c w") (auto simp: updatePackageJson_def)
  then have f: "fs w (join E c ''package.json'') = Some (Json M)"
    by (auto simp: readPackageJson_def Let_def split: option.splits entry.splits)
  let ?m = "M\<lparr>dependencies :=
                     Some (setProperty (case dependencies M of None \<Rightarrow> [] | Some al \<Rightarrow> al)
                            (toString (dep_name d)) (caret (dep_version d))),
                   localDependencies :=
                     Some (setProperty (case localDependencies M of None \<Rightarrow> [] | Some al \<Rightarrow> al)
                            (dep_path d) (caret (dep_version d)))\<rparr>"
  have u: "updatePackageJson E c d w = writePackageJson E c ?m w"
    using M
    by (cases "dependencies M"; cases "localDependencies M")
       (simp_all add: updatePackageJson_def setDependency_def setLocalDependency_def
          initDependencies_def initLocalDependencies_def)
  from assms u have "fst (writePackageJson E c ?m w) = Inr ()" by simp
  from writePackageJson_Inr[OF this] u f show ?thesis
    by (intro exI[of _ M]) simp
qed

lemma installSingle_written:
  assumes ok: "fst (installSingle E p w) = Inr ()"
    and dep: "fs w (join E (resolve E (cwd E) p) ''package.json'') = Some (Json D)"
  shows "\<exists>M. fs (snd (linkLocalDependency E p (cwd E) w)) (join E (cwd E) ''package.json'') =
            Some (Json M)
        \<and> fs (snd (installSingle E p w)) (join E (cwd E) ''package.json'') =
         Some (Json (M\<lparr>dependencies :=
                     Some (setProperty (case dependencies M of None \<Rightarrow> [] | Some al \<Rightarrow> al)
                            (toString (name D)) (caret (version D))),
                   localDependencies :=
                     Some (setProperty (case localDependencies M of None \<Rightarrow> [] | Some al \<Rightarrow> al)
                            p (caret (version D)))\<rparr>))"
proof -
  obtain r w1 where l: "linkLocalDependency E p (cwd E) w = (r, w1)"
    by (cases "linkLocalDependency E p (cwd E) w")
  show ?thesis
  proof (cases r)
    case (Inl e)
    with l ok show ?thesis by (simp add: installSingle_def)
  next
    case (Inr d)
    with l have i: "installSingle E p w = updatePackageJson E (cwd E) d w1"
      by (simp add: installSingle_def)
    from l Inr linkLocalDependency_Inr[of E p "cwd E" w d w1] dep
    have d: "d = \<lparr>dep_name = name D, dep_version = version D, dep_path = p\<rparr>"
      by auto
    from ok i have "fst (updatePackageJson E (cwd E) d w1) = Inr ()" by simp
    from updatePackageJson_Inr[OF this] show ?thesis
      unfolding i using l d by auto
  qed
qed

lemma linkLocalDependency_shape:
  "\<exists>new. trace (snd (linkLocalDependency E p c w)) = trace w @ new
     \<and> (new = []
        \<or> new = [Exec ''npm'' [Some ''link''] (resolve E c p)]
        \<or> (\<exists>n. new = [Exec ''npm'' [Some ''link''] (resolve E c p),
                        Exec ''npm'' [Some ''link'', n] c]))
     \<and> (\<not> fst (execFile E ''npm'' [Some ''link''] (resolve E c p) w) \<longrightarrow>
          (new = [] \<or> new = [Exec ''npm'' [Some ''link''] (resolve E c p)])
          \<and> (\<exists>e. fst (linkLocalDependency E p c w) = Inl e))"
  by (auto simp: linkLocalDependency_def readPackageJson_def Let_def execCommand_def
      split: if_splits option.splits entry.splits sum.splits prod.splits)

lemma updatePackageJson_trace:
  "trace (snd (updatePackageJson E c d w)) = trace w
   \<or> (\<exists>m. trace (snd (updatePackageJson E c d w)) = trace w @ [Write (join E c ''package.json'') m])"
  by (auto simp: updatePackageJson_def readPackageJson_def Let_def setDependency_def
      setLocalDependency_def writePackageJson_def
      split: if_splits option.splits entry.splits sum.splits prod.splits written.splits)

lemma installSingle_shape:
  "\<exists>new. trace (snd (installSingle E p w)) = trace w @ new
     \<and> (new = []
        \<or> new = [Exec ''npm'' [Some ''link''] (resolve E (cwd E) p)]
        \<or> (\<exists>n. new = [Exec ''npm'' [Some ''link''] (resolve E (cwd E) p),
                        Exec ''npm'' [Some ''link'', n] (cwd E)])
        \<or> (\<exists>n m. new = [Exec ''npm'' [Some ''link''] (resolve E (cwd E) p),
                          Exec ''npm'' [Some ''link'', n] (cwd E),
                          Write (join E (cwd E) ''package.json'') m]))
     \<and> (\<not> fst (execFile E ''npm'' [Some ''link''] (resolve E (cwd E) p) w) \<longrightarrow>
          (new = [] \<or> new = [Exec ''npm'' [Some ''link''] (resolve E (cwd E) p)])
          \<and> (\<exists>e. fst (installSingle E p w) = Inl e))"
proof -
  obtain r w1 where l: "linkLocalDependency E p (cwd E) w = (r, w1)"
    by (cases "linkLocalDependency E p (cwd E) w")
  from linkLocalDependency_shape[of E p "cwd E" w] l obtain new where
    new: "trace w1 = trace w @ new"
      "new = [] \<or> new = [Exec ''npm'' [Some ''link''] (resolve E (cwd E) p)]
        \<or> (\<exists>n. new = [Exec ''npm'' [Some ''link''] (resolve E (cwd E) p),
                        Exec ''npm'' [Some ''link'', n] (cwd E)])"
      "\<not> fst (execFile E ''npm'' [Some ''link''] (resolve E (cwd E) p) w) \<longrightarrow>
          (new = [] \<or> new = [Exec ''npm'' [Some ''link''] (resolve E (cwd E) p)])
          \<and> (\<exists>e. r = Inl e)"
    by auto
  show ?thesis
  proof (cases r)
    case (Inl e)
    with l have "installSingle E p w = (Inl e, w1)"
      by (simp add: installSingle_def)
    with new show ?thesis by auto
  next
    case (Inr d)
    with l have i: "installSingle E p w = updatePackageJson E (cwd E) d w1"
      by (simp add: installSingle_def)
    from Inr new(3) have ok: "fst (execFile E ''npm'' [Some ''link''] (resolve E (cwd E) p) w)"
      by auto
    from l Inr linkLocalDependency_Inr[of E p "cwd E" w d w1] new(1) obtain n where
      n: "new = [Exec ''npm'' [Some ''link''] (resolve E (cwd E) p),
                 Exec ''npm'' [Some ''link'', n] (cwd E)]"
      by auto
    from updatePackageJson_trace[of E "cwd E" d w1] show ?thesis
      unfolding i using new(1) n ok by auto
  qed
qed



lemma installEntry_Inr:
  assumes "linkLocalDependency E path c (w\<lparr>trace := trace w @ [Processing path]\<rparr>) = (Inr d, w1)"
  shows "installEntry E c path (pj, s, f, w) =
           (pj\<lparr>dependencies :=
                 Some (setProperty (case dependencies pj of None \<Rightarrow> [] | Some al \<Rightarrow> al)
                        (toString (dep_name d)) (caret (dep_version d)))\<rparr>,
            s + 1, f, w1)"
  using assms
  by (cases "dependencies pj") (simp_all add: installEntry_def setDependency_def initDependencies_def)



lemma linkFailures_le: "linkFailures E c deps st \<le> length deps"
proof -
  have "length (linkResults E c deps st) = length deps"
  proof (induction deps arbitrary: st)
    case Nil
    show ?case by simp
  next
    case (Cons x deps)
    obtain path ver where x: "x = (path, ver)" by (cases x)
    show ?case
      unfolding x using Cons.IH[of "installEntry E c path st"] by simp
  qed
  then show ?thesis
    unfolding linkFailures_def by (metis length_filter_le)
qed

lemma unlinkDependency_Inr:
  assumes ok: "fst (unlinkDependency E p w) = Inr ()"
    and dep: "fs w (join E (resolve E (cwd E) p) ''package.json'') = Some (Json D)"
  shows "\<exists>M. fs (snd (execCommand E ''npm'' [Some ''unlink'', name D] (cwd E) w))
               (join E (cwd E) ''package.json'') = Some (Json M)
          \<and> fs (snd (unlinkDependency E p w)) (join E (cwd E) ''package.json'') =
              Some (Json (removeEntries M (name D) p))
          \<and> fst (execFile E ''npm'' [Some ''unlink'', name D] (cwd E) w)"
  using assms
  by (auto simp: unlinkDependency_def readPackageJson_def Let_def execCommand_def
      writePackageJson_def
      split: if_splits option.splits entry.splits sum.splits prod.splits written.splits)

lemma lookup_deleteIfTruthy:
  "lookup (deleteIfTruthy m k) k' =
     (if k' = k \<and> truthy (lookup m k) then None else lookup m k')"
  by (cases m) (simp_all add: deleteIfTruthy_def AList.delete_conv')

lemma installSingle_stores:
  assumes ok: "fst (installSingle E p w) = Inr ()"
    and dep: "fs w (join E (resolve E (cwd E) p) ''package.json'') = Some (Json D)"
  shows "\<exists>M'. fs (snd (installSingle E p w)) (join E (cwd E) ''package.json'') = Some (Json M')
      \<and> (toString (name D) \<noteq> ''__proto__'' \<longrightarrow>
            lookup (dependencies M') (toString (name D)) = Some (caret (version D)))
      \<and> (p \<noteq> ''__proto__'' \<longrightarrow> lookup (localDependencies M') p = Some (caret (version D)))"
  using installSingle_written[OF ok dep] by (auto simp: map_of_setProperty)

lemma installEntry_stores:
  assumes "linkLocalDependency E path c (w\<lparr>trace := trace w @ [Processing path]\<rparr>) = (Inr d, w1)"
    and "toString (dep_name d) \<noteq> ''__proto__''"
  shows "lookup (dependencies (fst (installEntry E c path (pj, s, f, w)))) (toString (dep_name d)) =
           Some (caret (dep_version d))"
  using assms by (simp add: installEntry_Inr map_of_setProperty)

section \<open>Properties of the single install\<close>

text \<open>
  C1, at the path \<^verbatim>\<open>__proto__\<close>: the directory \<^verbatim>\<open>/home/app/__proto__\<close> holds the
  dependency \<^verbatim>\<open>{"name":"lib","version":"2.3.0"}\<close>, and the consumer is
  \<^verbatim>\<open>{"name":"app","version":"1.0.0"}\<close>. The install succeeds and writes the manifest
  with \<^verbatim>\<open>"lib": "^2.3.0"\<close> in \<open>dependencies\<close> and an empty \<open>localDependencies\<close>: the
  assignment \<^verbatim>\<open>packageJson.localDependencies["__proto__"] = "^2.3.0"\<close> stores nothing.
\<close>

theorem install_at_proto_path_records_no_path:
  "name lib = Some ''lib''
   \<and> version lib = Some ''2.3.0''
   \<and> fs (protoProject app lib)
        (join posix (resolve posix (cwd posix) ''__proto__'') ''package.json'') = Some (Json lib)
   \<and> fst (installSingle posix ''__proto__'' (protoProject app lib)) = Inr ()
   \<and> fs (snd (installSingle posix ''__proto__'' (protoProject app lib)))
        ''/home/app/package.json'' =
       Some (Json (app\<lparr>dependencies := Some [(''lib'', JStr ''^2.3.0'')],
                       localDependencies := Some []\<rparr>))
   \<and> lookup (localDependencies (app\<lparr>dependencies := Some [(''lib'', JStr ''^2.3.0'')],
                                    localDependencies := Some []\<rparr>)) ''__proto__'' = None"
  by code_simp

text \<open>
  C8, as stated. At a dependency that has a name and no version the value stored is
  \<^verbatim>\<open>"^undefined"\<close>, and that string does not have eight characters. At such a
  dependency in the directory \<^verbatim>\<open>__proto__\<close> the install succeeds and no value is stored
  in \<open>localDependencies\<close>.
\<close>

theorem caret_undefined_not_eight_characters:
  "name (lib\<lparr>version := None\<rparr>) = Some ''lib''
   \<and> version (lib\<lparr>version := None\<rparr>) = None
   \<and> fst (installSingle posix ''../lib'' (project app (lib\<lparr>version := None\<rparr>))) = Inr ()
   \<and> fs (snd (installSingle posix ''../lib'' (project app (lib\<lparr>version := None\<rparr>))))
        ''/home/app/package.json'' =
       Some (Json (app\<lparr>dependencies := Some [(''lib'', JStr ''^undefined'')],
                       localDependencies := Some [(''../lib'', JStr ''^undefined'')]\<rparr>))
   \<and> length ''^undefined'' \<noteq> 8
   \<and> fst (installSingle posix ''__proto__'' (protoProject app (lib\<lparr>version := None\<rparr>))) = Inr ()
   \<and> fs (snd (installSingle posix ''__proto__'' (protoProject app (lib\<lparr>version := None\<rparr>))))
        ''/home/app/package.json'' =
       Some (Json (app\<lparr>dependencies := Some [(''lib'', JStr ''^undefined'')],
                       localDependencies := Some []\<rparr>))"
  by code_simp

text \<open>
  C8, amended. After a successful install of a dependency whose manifest has a name \<open>n\<close>
  and no version, where neither \<open>n\<close> nor the path \<open>p\<close> is the key \<^verbatim>\<open>__proto__\<close>, the value
  stored under \<open>n\<close> in \<open>dependencies\<close> and under \<open>p\<close> in \<open>localDependencies\<close> is the string
  \<^verbatim>\<open>"^undefined"\<close>, which has ten characters.
\<close>

theorem install_without_version:
  assumes ok: "fst (installSingle E p w) = Inr ()"
    and dep: "fs w (join E (resolve E (cwd E) p) ''package.json'') = Some (Json D)"
    and n: "name D = Some n"
    and v: "version D = None"
    and np: "n \<noteq> ''__proto__''"
    and pp: "p \<noteq> ''__proto__''"
  shows "\<exists>M'. fs (snd (installSingle E p w)) (join E (cwd E) ''package.json'') = Some (Json M')
      \<and> lookup (dependencies M') n = Some (JStr ''^undefined'')
      \<and> lookup (localDependencies M') p = Some (JStr ''^undefined'')
      \<and> length ''^undefined'' = 10"
  using installSingle_written[OF ok dep] n v np pp
  by (auto simp: map_of_setProperty caret_def)

theorem install_without_version_witness:
  "fst (installSingle posix ''../lib'' (project app (lib\<lparr>version := None\<rparr>))) = Inr ()
   \<and> ''lib'' \<noteq> ''__proto__''
   \<and> ''../lib'' \<noteq> ''__proto__''
   \<and> (\<exists>M'. fs (snd (installSingle posix ''../lib'' (project app (lib\<lparr>version := None\<rparr>))))
              ''/home/app/package.json'' = Some (Json M')
        \<and> lookup (dependencies M') ''lib'' = Some (JStr ''^undefined'')
        \<and> lookup (localDependencies M') ''../lib'' = Some (JStr ''^undefined'')
        \<and> length ''^undefined'' = 10)"
proof -
  have ok: "fst (installSingle posix ''../lib'' (project app (lib\<lparr>version := None\<rparr>))) = Inr ()"
    by code_simp
  have dep: "fs (project app (lib\<lparr>version := None\<rparr>))
               (join posix (resolve posix (cwd posix) ''../lib'') ''package.json'') =
             Some (Json (lib\<lparr>version := None\<rparr>))"
    by code_simp
  have n: "name (lib\<lparr>version := None\<rparr>) = Some ''lib''"
    and v: "version (lib\<lparr>version := None\<rparr>) = None"
    by (simp_all add: lib_def)
  have np: "''lib'' \<noteq> ''__proto__''" and pp: "''../lib'' \<noteq> ''__proto__''"
    by simp_all
  have j: "join posix (cwd posix) ''package.json'' = ''/home/app/package.json''"
    by code_simp
  show ?thesis
    using install_without_version[OF ok dep n v np pp] ok unfolding j by simp
qed

text \<open>
  C9. A successful single install into the consumer manifest \<open>M\<close> changes nothing but the
  entry under the dependency's name \<open>n\<close> in \<open>dependencies\<close> and the entry under the path
  \<open>p\<close> in \<open>localDependencies\<close>: \<open>name\<close>, \<open>version\<close> and every other top-level key are
  what they were, and so is every other entry of the two objects. An object that was
  absent is created empty, and the one assignment is made on the empty object.
\<close>

theorem install_frame:
  assumes ok: "fst (installSingle E p w) = Inr ()"
    and dep: "fs w (join E (resolve E (cwd E) p) ''package.json'') = Some (Json D)"
    and n: "name D = Some n"
    and M: "fs (snd (linkLocalDependency E p (cwd E) w)) (join E (cwd E) ''package.json'') =
            Some (Json M)"
  shows "\<exists>M'. fs (snd (installSingle E p w)) (join E (cwd E) ''package.json'') = Some (Json M')
      \<and> name M' = name M \<and> version M' = version M \<and> rest M' = rest M
      \<and> (\<forall>k. k \<noteq> n \<longrightarrow> lookup (dependencies M') k = lookup (dependencies M) k)
      \<and> (\<forall>k. k \<noteq> p \<longrightarrow> lookup (localDependencies M') k = lookup (localDependencies M) k)
      \<and> (dependencies M = None \<longrightarrow>
            dependencies M' = Some (setProperty [] n (caret (version D))))
      \<and> (localDependencies M = None \<longrightarrow>
            localDependencies M' = Some (setProperty [] p (caret (version D))))"
  using installSingle_written[OF ok dep] M n
  by (cases "dependencies M"; cases "localDependencies M") (auto simp: map_of_setProperty)

theorem install_frame_witness:
  "fst (installSingle posix ''../lib'' (project appLicensed lib)) = Inr ()
   \<and> (\<exists>M'. fs (snd (installSingle posix ''../lib'' (project appLicensed lib)))
              ''/home/app/package.json'' = Some (Json M')
        \<and> name M' = Some ''app'' \<and> version M' = Some ''1.0.0''
        \<and> rest M' = [(''license'', JStr ''MIT'')]
        \<and> lookup (dependencies M') ''express'' = None
        \<and> lookup (localDependencies M') ''/home/lib'' = None
        \<and> dependencies M' = Some [(''lib'', JStr ''^2.3.0'')]
        \<and> localDependencies M' = Some [(''../lib'', JStr ''^2.3.0'')])"
proof -
  have ok: "fst (installSingle posix ''../lib'' (project appLicensed lib)) = Inr ()"
    by code_simp
  have dep: "fs (project appLicensed lib)
               (join posix (resolve posix (cwd posix) ''../lib'') ''package.json'') = Some (Json lib)"
    by code_simp
  have n: "name lib = Some ''lib''"
    by (simp add: lib_def)
  have M: "fs (snd (linkLocalDependency posix ''../lib'' (cwd posix) (project appLicensed lib)))
             (join posix (cwd posix) ''package.json'') = Some (Json appLicensed)"
    by code_simp
  have j: "join posix (cwd posix) ''package.json'' = ''/home/app/package.json''"
    by code_simp
  have a: "dependencies appLicensed = None" "localDependencies appLicensed = None"
    "name appLicensed = Some ''app''" "version appLicensed = Some ''1.0.0''"
    "rest appLicensed = [(''license'', JStr ''MIT'')]" "caret (version lib) = JStr ''^2.3.0''"
    by (simp_all add: appLicensed_def app_def lib_def caret_def)
  have s: "setProperty [] ''lib'' (JStr ''^2.3.0'') = [(''lib'', JStr ''^2.3.0'')]"
    "setProperty [] ''../lib'' (JStr ''^2.3.0'') = [(''../lib'', JStr ''^2.3.0'')]"
    by (simp_all add: setProperty_Nil)
  from install_frame[OF ok dep n M] obtain M' where
    M': "fs (snd (installSingle posix ''../lib'' (project appLicensed lib)))
              ''/home/app/package.json'' = Some (Json M')"
      "name M' = name appLicensed" "version M' = version appLicensed" "rest M' = rest appLicensed"
      "\<forall>k. k \<noteq> ''lib'' \<longrightarrow> lookup (dependencies M') k = lookup (dependencies appLicensed) k"
      "\<forall>k. k \<noteq> ''../lib'' \<longrightarrow>
             lookup (localDependencies M') k = lookup (localDependencies appLicensed) k"
      "dependencies M' = Some (setProperty [] ''lib'' (caret (version lib)))"
      "localDependencies M' = Some (setProperty [] ''../lib'' (caret (version lib)))"
    unfolding j using a(1,2) by auto
  have "lookup (dependencies M') ''express'' = None"
    "lookup (localDependencies M') ''/home/lib'' = None"
    using M'(5)[rule_format, of "''express''"] M'(6)[rule_format, of "''/home/lib''"] a(1,2)
    by simp_all
  with M' a s ok show ?thesis by auto
qed

text \<open>
  C4. A single install of a path that exists and whose manifest parses but has no
  \<open>name\<close> fails with \<open>MissingNameError\<close> and leaves the world as it was: no subprocess is
  run and no file changes.
\<close>

theorem install_without_name_fails:
  assumes "fs w (resolve E (cwd E) p) \<noteq> None"
    and "fs w (join E (resolve E (cwd E) p) ''package.json'') = Some (Json D)"
    and "name D = None"
  shows "installSingle E p w = (Inl MissingNameError, w)"
  using assms
  by (simp add: installSingle_def linkLocalDependency_def readPackageJson_def Let_def)

theorem install_without_name_fails_witness:
  "installSingle posix ''../lib'' (project app (lib\<lparr>name := None\<rparr>)) =
     (Inl MissingNameError, project app (lib\<lparr>name := None\<rparr>))"
proof -
  have a: "fs (project app (lib\<lparr>name := None\<rparr>)) (resolve posix (cwd posix) ''../lib'') \<noteq> None"
    by code_simp
  have b: "fs (project app (lib\<lparr>name := None\<rparr>))
             (join posix (resolve posix (cwd posix) ''../lib'') ''package.json'') =
           Some (Json (lib\<lparr>name := None\<rparr>))"
    by code_simp
  have c: "name (lib\<lparr>name := None\<rparr>) = None"
    by simp
  show ?thesis
    by (rule install_without_name_fails[OF a b c])
qed

text \<open>
  C6. What linking one dependency adds to the trace is a prefix of: the register step
  (\<^verbatim>\<open>npm link\<close> in the dependency's directory), the consume step (\<^verbatim>\<open>npm link <name>\<close>
  in the consumer's directory); a single install may add the write of the consumer
  manifest after the two. So the consume step never comes without the register step
  before it; and when the register step fails, nothing follows it, neither the consume
  step nor a write, and the operation fails.
\<close>

theorem register_before_consume:
  "(\<exists>new. trace (snd (linkLocalDependency E p c w)) = trace w @ new
      \<and> (new = []
         \<or> new = [Exec ''npm'' [Some ''link''] (resolve E c p)]
         \<or> (\<exists>n. new = [Exec ''npm'' [Some ''link''] (resolve E c p),
                         Exec ''npm'' [Some ''link'', n] c]))
      \<and> (\<not> fst (execFile E ''npm'' [Some ''link''] (resolve E c p) w) \<longrightarrow>
           (new = [] \<or> new = [Exec ''npm'' [Some ''link''] (resolve E c p)])
           \<and> (\<exists>e. fst (linkLocalDependency E p c w) = Inl e)))
   \<and> (\<exists>new. trace (snd (installSingle E p w)) = trace w @ new
      \<and> (new = []
         \<or> new = [Exec ''npm'' [Some ''link''] (resolve E (cwd E) p)]
         \<or> (\<exists>n. new = [Exec ''npm'' [Some ''link''] (resolve E (cwd E) p),
                         Exec ''npm'' [Some ''link'', n] (cwd E)])
         \<or> (\<exists>n m. new = [Exec ''npm'' [Some ''link''] (resolve E (cwd E) p),
                           Exec ''npm'' [Some ''link'', n] (cwd E),
                           Write (join E (cwd E) ''package.json'') m]))
      \<and> (\<not> fst (execFile E ''npm'' [Some ''link''] (resolve E (cwd E) p) w) \<longrightarrow>
           (new = [] \<or> new = [Exec ''npm'' [Some ''link''] (resolve E (cwd E) p)])
           \<and> (\<exists>e. fst (installSingle E p w) = Inl e)))"
  by (rule conjI[OF linkLocalDependency_shape installSingle_shape])

theorem register_before_consume_witness:
  "\<not> fst (execFile posixNoRegister ''npm'' [Some ''link''] ''/home/lib'' (project app lib))
   \<and> trace (snd (installSingle posixNoRegister ''../lib'' (project app lib))) =
       [Exec ''npm'' [Some ''link''] ''/home/lib'']
   \<and> fst (installSingle posixNoRegister ''../lib'' (project app lib)) = Inl LinkerError
   \<and> fs (snd (installSingle posixNoRegister ''../lib'' (project app lib)))
        ''/home/app/package.json'' = Some (Json app)
   \<and> trace (snd (installSingle posix ''../lib'' (project app lib))) =
       [Exec ''npm'' [Some ''link''] ''/home/lib'',
        Exec ''npm'' [Some ''link'', Some ''lib''] ''/home/app'',
        Write ''/home/app/package.json''
          (app\<lparr>dependencies := Some [(''lib'', JStr ''^2.3.0'')],
               localDependencies := Some [(''../lib'', JStr ''^2.3.0'')]\<rparr>)]"
proof -
  have a: "\<not> fst (execFile posixNoRegister ''npm'' [Some ''link'']
                   (resolve posixNoRegister (cwd posixNoRegister) ''../lib'') (project app lib))"
    by code_simp
  have r: "resolve posixNoRegister (cwd posixNoRegister) ''../lib'' = ''/home/lib''"
    by code_simp
  have t: "trace (snd (installSingle posixNoRegister ''../lib'' (project app lib))) =
       [Exec ''npm'' [Some ''link''] ''/home/lib'']"
    by code_simp
  have e: "fst (installSingle posixNoRegister ''../lib'' (project app lib)) = Inl LinkerError"
    by code_simp
  have f: "fs (snd (installSingle posixNoRegister ''../lib'' (project app lib)))
             ''/home/app/package.json'' = Some (Json app)"
    by code_simp
  have g: "trace (snd (installSingle posix ''../lib'' (project app lib))) =
       [Exec ''npm'' [Some ''link''] ''/home/lib'',
        Exec ''npm'' [Some ''link'', Some ''lib''] ''/home/app'',
        Write ''/home/app/package.json''
          (app\<lparr>dependencies := Some [(''lib'', JStr ''^2.3.0'')],
               localDependencies := Some [(''../lib'', JStr ''^2.3.0'')]\<rparr>)]"
    by code_simp
  show ?thesis
    using register_before_consume[of posixNoRegister "''../lib''" "cwd posixNoRegister"
        "project app lib"] a t e f g
    unfolding r by simp
qed

section \<open>Properties of the bulk install\<close>




text \<open>
  C3, at a dependency whose name is \<^verbatim>\<open>__proto__\<close>: the consumer has
  \<^verbatim>\<open>"localDependencies": {"../lib": "^1.0.0"}\<close> and \<^verbatim>\<open>/home/lib/package.json\<close> is
  \<^verbatim>\<open>{"name":"__proto__","version":"2.3.0"}\<close>. The link succeeds, the entry counts as a
  success and the manifest is written, with an empty \<open>dependencies\<close>: the assignment
  \<^verbatim>\<open>packageJson.dependencies["__proto__"] = "^2.3.0"\<close> stores nothing.
\<close>

theorem bulk_install_of_proto_name_records_no_dependency:
  "fst (linkLocalDependency posix ''../lib'' ''/home/app''
          (project appOne libProto\<lparr>trace := trace (project appOne libProto) @ [Processing ''../lib'']\<rparr>)) =
     Inr \<lparr>dep_name = Some ''__proto__'', dep_version = Some ''2.3.0'', dep_path = ''../lib''\<rparr>
   \<and> fst (installEntry posix ''/home/app'' ''../lib'' (appOne, 0, 0, project appOne libProto)) =
       appOne\<lparr>dependencies := Some []\<rparr>
   \<and> fst (installAll posix (project appOne libProto)) = Inr (Summary 1 0)
   \<and> fs (snd (installAll posix (project appOne libProto))) ''/home/app/package.json'' =
       Some (Json (appOne\<lparr>dependencies := Some []\<rparr>))
   \<and> lookup (dependencies (appOne\<lparr>dependencies := Some []\<rparr>)) ''__proto__'' = None"
  by code_simp

section \<open>Properties of unlink\<close>

text \<open>
  C5, at a dependency whose manifest parses and has no \<open>name\<close>, with a linker that
  exits with status zero: \<^verbatim>\<open>unlinkDependency\<close> does not fail, it runs the release step
  \<^verbatim>\<open>npm unlink\<close> with \<^verbatim>\<open>undefined\<close> as the package name, and it rewrites the consumer
  manifest without the \<open>localDependencies\<close> entry of the path.
\<close>

theorem unlink_without_name_runs_release:
  "name (lib\<lparr>name := None\<rparr>) = None
   \<and> fst (unlinkDependency posix ''../lib'' (project appLinked (lib\<lparr>name := None\<rparr>))) = Inr ()
   \<and> trace (snd (unlinkDependency posix ''../lib'' (project appLinked (lib\<lparr>name := None\<rparr>)))) =
       [Exec ''npm'' [Some ''unlink'', None] ''/home/app'',
        Write ''/home/app/package.json'' (appLinked\<lparr>localDependencies := Some []\<rparr>)]
   \<and> fs (snd (unlinkDependency posix ''../lib'' (project appLinked (lib\<lparr>name := None\<rparr>))))
        ''/home/app/package.json'' = Some (Json (appLinked\<lparr>localDependencies := Some []\<rparr>))"
  by code_simp

text \<open>
  C7. The removal that \<^verbatim>\<open>unlinkDependency\<close> applies to the manifest is idempotent, and
  where neither key is there it changes nothing (it has no error to give).
\<close>

theorem removeEntries_idempotent:
  "removeEntries (removeEntries M n p) n p = removeEntries M n p
   \<and> (lookup (dependencies M) (toString n) = None \<and> lookup (localDependencies M) p = None
        \<longrightarrow> removeEntries M n p = M)"
  by (cases "dependencies M"; cases "localDependencies M")
     (simp_all add: removeEntries_def deleteIfTruthy_def Let_def AList.delete_conv' AList.delete_idem)

theorem removeEntries_idempotent_witness:
  "removeEntries (removeEntries app (Some ''lib'') ''../lib'') (Some ''lib'') ''../lib'' =
     removeEntries app (Some ''lib'') ''../lib''
   \<and> lookup (dependencies app) (toString (Some ''lib'')) = None
   \<and> lookup (localDependencies app) ''../lib'' = None
   \<and> removeEntries app (Some ''lib'') ''../lib'' = app"
proof -
  have a: "lookup (dependencies app) (toString (Some ''lib'')) = None"
    and b: "lookup (localDependencies app) ''../lib'' = None"
    by (simp_all add: app_def)
  show ?thesis
    using removeEntries_idempotent[of app "Some ''lib''" "''../lib''"] a b by simp
qed

text \<open>
  C10, as stated, at a consumer whose \<open>localDependencies\<close> key \<^verbatim>\<open>./../lib\<close> resolves to
  the directory of the unlinked path \<^verbatim>\<open>../lib\<close> and whose \<open>dependencies\<close> stores the
  empty string for \<^verbatim>\<open>lib\<close>: the unlink succeeds and the \<open>dependencies\<close> entry is still
  there, since the \<^verbatim>\<open>delete\<close> is guarded by the truthiness of the stored value.
\<close>

theorem unlink_keeps_falsy_dependency:
  "resolve posix (cwd posix) ''./../lib'' = resolve posix (cwd posix) ''../lib''
   \<and> ''./../lib'' \<noteq> ''../lib''
   \<and> name lib = Some ''lib''
   \<and> fst (unlinkDependency posix ''../lib'' (project appAnyVersion lib)) = Inr ()
   \<and> fs (snd (unlinkDependency posix ''../lib'' (project appAnyVersion lib)))
        ''/home/app/package.json'' = Some (Json appAnyVersion)
   \<and> lookup (dependencies appAnyVersion) ''lib'' = Some (JStr [])"
  by code_simp

text \<open>
  C10, amended. After a successful unlink of the path \<open>p\<close>, every \<open>localDependencies\<close>
  entry under a key other than the string \<open>p\<close> is what it was, also when that key
  resolves to the same directory; and the \<open>dependencies\<close> entry under the dependency's
  name is gone when the value it stored was truthy.
\<close>

theorem unlink_removes_by_exact_key:
  assumes ok: "fst (unlinkDependency E p w) = Inr ()"
    and dep: "fs w (join E (resolve E (cwd E) p) ''package.json'') = Some (Json D)"
    and M: "fs (snd (execCommand E ''npm'' [Some ''unlink'', name D] (cwd E) w))
              (join E (cwd E) ''package.json'') = Some (Json M)"
  shows "\<exists>M'. fs (snd (unlinkDependency E p w)) (join E (cwd E) ''package.json'') = Some (Json M')
      \<and> (\<forall>k. k \<noteq> p \<longrightarrow> lookup (localDependencies M') k = lookup (localDependencies M) k)
      \<and> (truthy (lookup (dependencies M) (toString (name D))) \<longrightarrow>
           lookup (dependencies M') (toString (name D)) = None)"
  using unlinkDependency_Inr[OF ok dep] M
  by (auto simp: removeEntries_def Let_def lookup_deleteIfTruthy)

theorem unlink_removes_by_exact_key_witness:
  "fst (unlinkDependency posix ''../lib'' (project appAlias lib)) = Inr ()
   \<and> ''./../lib'' \<noteq> ''../lib''
   \<and> resolve posix (cwd posix) ''./../lib'' = resolve posix (cwd posix) ''../lib''
   \<and> truthy (lookup (dependencies appAlias) ''lib'')
   \<and> (\<exists>M'. fs (snd (unlinkDependency posix ''../lib'' (project appAlias lib)))
              ''/home/app/package.json'' = Some (Json M')
        \<and> lookup (localDependencies M') ''./../lib'' = Some (JStr ''^2.3.0'')
        \<and> lookup (dependencies M') ''lib'' = None)"
proof -
  have ok: "fst (unlinkDependency posix ''../lib'' (project appAlias lib)) = Inr ()"
    by code_simp
  have dep: "fs (project appAlias lib)
               (join posix (resolve posix (cwd posix) ''../lib'') ''package.json'') = Some (Json lib)"
    by code_simp
  have M: "fs (snd (execCommand posix ''npm'' [Some ''unlink'', name lib] (cwd posix)
                     (project appAlias lib)))
              (join posix (cwd posix) ''package.json'') = Some (Json appAlias)"
    by code_simp
  have j: "join posix (cwd posix) ''package.json'' = ''/home/app/package.json''"
    by code_simp
  have r: "resolve posix (cwd posix) ''./../lib'' = resolve posix (cwd posix) ''../lib''"
    by code_simp
  have a: "lookup (localDependencies appAlias) ''./../lib'' = Some (JStr ''^2.3.0'')"
    "toString (name lib) = ''lib''"
    and t: "truthy (lookup (dependencies appAlias) ''lib'')"
    by (simp_all add: appAlias_def lib_def)
  from unlink_removes_by_exact_key[OF ok dep M] obtain M' where
    M': "fs (snd (unlinkDependency posix ''../lib'' (project appAlias lib)))
              ''/home/app/package.json'' = Some (Json M')"
      "\<forall>k. k \<noteq> ''../lib'' \<longrightarrow>
             lookup (localDependencies M') k = lookup (localDependencies appAlias) k"
      "truthy (lookup (dependencies appAlias) (toString (name lib))) \<longrightarrow>
         lookup (dependencies M') (toString (name lib)) = None"
    unfolding j by blast
  have "lookup (localDependencies M') ''./../lib'' = Some (JStr ''^2.3.0'')"
    using M'(2)[rule_format, of "''./../lib''"] a by simp
  moreover have "lookup (dependencies M') ''lib'' = None"
    using M'(3) a t by simp
  ultimately show ?thesis
    using ok r t M'(1) by auto
qed

end
